theory Spec2Isabelle
  imports Main "HOL-Library.Sublist"
begin

section \<open>Ubuntu Image Fetcher: a shallow embedding of \<open>ubuntu_image_fetcher.py\<close>\<close>

text \<open>
  The program downloads one image per attempt: \<open>fetch_image\<close> creates the target
  directory, issues a GET, validates the response (\<open>validate_image_response\<close>),
  derives a file name (\<open>generate_filename\<close>, \<open>get_content_type_extension\<close>) and
  streams the body to a file.  Each Python function is a HOL function of the same name.
  What the program takes from outside (the standard library's tables, the HTTP
  transport, the file system and the clock) is an explicit argument.
\<close>

subsection \<open>Strings and bytes\<close>

text \<open>
  A Python \<open>str\<close> is a sequence of Unicode code points: \<open>pystr\<close>, a list of
  naturals.  A \<open>bytes\<close> object is a list of 8-bit characters.  A header value of a
  \<open>requests\<close> response is a \<open>str\<close> decoded from the wire as ISO-8859-1, so each of
  its code points is below 256: it is a list of 8-bit characters too (\<open>latin1\<close>), and
  \<open>ustr\<close> reads it as a \<open>pystr\<close>.
\<close>

type_synonym pystr = "nat list"
type_synonym bytes = "char list"
type_synonym latin1 = "char list"

definition ustr :: "latin1 \<Rightarrow> pystr" where
  "ustr s = map of_char s"

text \<open>\<open>s.startswith(p)\<close>, \<open>sub in s\<close> and \<open>s.split(sep)\<close> for a non-empty \<open>sep\<close>.\<close>

definition startswith :: "'a list \<Rightarrow> 'a list \<Rightarrow> bool" where
  "startswith s p \<longleftrightarrow> take (length p) s = p"

fun str_contains :: "'a list \<Rightarrow> 'a list \<Rightarrow> bool" where
  "str_contains sub [] = (sub = [])"
| "str_contains sub (c # cs) = (startswith (c # cs) sub \<or> str_contains sub cs)"

function split_from :: "'a list \<Rightarrow> 'a list \<Rightarrow> 'a list \<Rightarrow> 'a list list" where
  "split_from sep acc [] = [rev acc]"
| "split_from sep acc (c # cs) =
     (if sep \<noteq> [] \<and> startswith (c # cs) sep
      then rev acc # split_from sep [] (drop (length sep - 1) cs)
      else split_from sep (c # acc) cs)"
  by pat_completeness auto
termination
  by (relation "measure (\<lambda>(sep, acc, s). length s)") auto

definition str_split :: "'a list \<Rightarrow> 'a list \<Rightarrow> 'a list list" where
  "str_split sep s = split_from sep [] s"

text \<open>\<open>s.strip(chars)\<close> and \<open>s.lstrip(chars)\<close>, the characters given by a predicate.\<close>

definition lstrip :: "('a \<Rightarrow> bool) \<Rightarrow> 'a list \<Rightarrow> 'a list" where
  "lstrip P s = dropWhile P s"

definition strip :: "('a \<Rightarrow> bool) \<Rightarrow> 'a list \<Rightarrow> 'a list" where
  "strip P s = rev (dropWhile P (rev (dropWhile P s)))"

text \<open>
  \<open>str.lower()\<close> on a string of code points below 256: the ASCII capitals and the
  Latin-1 capitals \<open>U+00C0..U+00DE\<close> (without the multiplication sign \<open>U+00D7\<close>) move
  up by 32, every other character stays.
\<close>

definition lower_char :: "char \<Rightarrow> char" where
  "lower_char c =
     (let n = (of_char c :: nat) in
      if (65 \<le> n \<and> n \<le> 90) \<or> (192 \<le> n \<and> n \<le> 222 \<and> n \<noteq> 215)
      then char_of (n + 32) else c)"

definition lower :: "latin1 \<Rightarrow> latin1" where
  "lower s = map lower_char s"

text \<open>The decimal text of an integer, as \<open>str(n)\<close> and an f-string give it.\<close>

fun dec_digits :: "nat \<Rightarrow> pystr" where
  "dec_digits n = (if n < 10 then [48 + n] else dec_digits (n div 10) @ [48 + n mod 10])"

declare dec_digits.simps [simp del]

definition str_of_int :: "int \<Rightarrow> pystr" where
  "str_of_int i = (if i < 0 then 45 # dec_digits (nat (- i)) else dec_digits (nat i))"

subsection \<open>The standard library, as far as the program calls it\<close>

text \<open>
  The exceptions the program can meet, by the \<open>except\<close> clause that matches them.
  \<open>Timeout\<close> is any instance of \<open>requests.exceptions.Timeout\<close> (a
  \<open>ConnectTimeout\<close> is also a \<open>ConnectionError\<close>, and the \<open>Timeout\<close> clause comes
  first); \<open>ConnectionError\<close> is an instance of \<open>requests.exceptions.ConnectionError\<close>
  that is no \<open>Timeout\<close>; \<open>HTTPError\<close> carries the status code of its \<open>response\<close>
  attribute, if it has one; \<open>ValueError\<close> and \<open>OtherException\<close> carry \<open>str(e)\<close>;
  \<open>OtherException\<close> is any other subclass of \<open>Exception\<close>; \<open>Interrupt\<close> is a
  \<open>BaseException\<close> outside \<open>Exception\<close> (\<open>KeyboardInterrupt\<close>, \<open>SystemExit\<close>).
\<close>

datatype exn =
    Timeout
  | ConnectionError
  | HTTPError "nat option"
  | ValueError pystr
  | PermissionError
  | OtherException pystr
  | Interrupt

text \<open>
  The parts of the Python installation that the source relies on and that are tables
  or system state rather than code of the program:
  \<^item> \<open>uni_isalnum c\<close>: \<open>str.isalnum()\<close> of the code point \<open>c\<close>, consulted for
    \<open>c \<ge> 256\<close> only (the Unicode database);
  \<^item> \<open>unquote_escapes s\<close>: \<open>urllib.parse.unquote(s)\<close> for a string that contains
    \<open>%\<close> (percent-decoding, then UTF-8 decoding with replacement);
  \<^item> \<open>netloc_error n\<close>: the message of the \<open>ValueError\<close> that \<open>urlsplit\<close> raises
    for the network location \<open>n\<close> (a bracketed host that is no IP literal, or
    characters that NFKC normalisation turns into delimiters), if it raises one;
  \<^item> \<open>guess_extension t\<close>: \<open>mimetypes.guess_extension(t)\<close>, read from the system's
    MIME tables;
  \<^item> \<open>path_join d f\<close>: \<open>str(Path(d) / f)\<close>;
  \<^item> \<open>max_str_digits\<close>: \<open>sys.get_int_max_str_digits()\<close>, 0 for no limit;
  \<^item> \<open>int_error_text s\<close>: the message of the \<open>ValueError\<close> that \<open>int(s)\<close> raises.
\<close>

record pylib =
  uni_isalnum :: "nat \<Rightarrow> bool"
  unquote_escapes :: "pystr \<Rightarrow> pystr"
  netloc_error :: "pystr \<Rightarrow> pystr option"
  guess_extension :: "latin1 \<Rightarrow> pystr option"
  path_join :: "pystr \<Rightarrow> pystr \<Rightarrow> pystr"
  max_str_digits :: nat
  int_error_text :: "latin1 \<Rightarrow> pystr"

text \<open>
  \<open>c.isalnum()\<close> for one code point.  Below 256 the alphanumeric code points are the
  ASCII digits and letters, the Latin-1 letters, and the superscript digits and vulgar
  fractions (\<open>U+00B2, U+00B3, U+00B9, U+00BC..U+00BE\<close>).
\<close>

definition latin1_isalnum :: "nat \<Rightarrow> bool" where
  "latin1_isalnum c \<longleftrightarrow>
     (48 \<le> c \<and> c \<le> 57) \<or> (65 \<le> c \<and> c \<le> 90) \<or> (97 \<le> c \<and> c \<le> 122) \<or>
     c \<in> {170, 178, 179, 181, 185, 186, 188, 189, 190} \<or>
     (192 \<le> c \<and> c \<le> 214) \<or> (216 \<le> c \<and> c \<le> 246) \<or> (248 \<le> c \<and> c \<le> 255)"

definition isalnum :: "pylib \<Rightarrow> nat \<Rightarrow> bool" where
  "isalnum lib c = (if c < 256 then latin1_isalnum c else uni_isalnum lib c)"

text \<open>\<open>urllib.parse.unquote\<close>: a string without \<open>%\<close> is returned as it is.\<close>

definition unquote :: "pylib \<Rightarrow> pystr \<Rightarrow> pystr" where
  "unquote lib s = (if 37 \<notin> set s then s else unquote_escapes lib s)"

text \<open>\<open>posixpath.basename\<close>: \<open>p[p.rfind('/') + 1:]\<close>.\<close>

definition basename :: "pystr \<Rightarrow> pystr" where
  "basename p = rev (takeWhile (\<lambda>c. c \<noteq> 47) (rev p))"

text \<open>
  \<open>urllib.parse.urlparse(url).path\<close> (CPython 3.11).  \<open>urlsplit\<close> strips leading C0
  control characters and spaces, removes tab, CR and LF, splits a scheme off at the
  first \<open>:\<close> when the text before it starts with an ASCII letter and consists of scheme
  characters, splits a network location off after \<open>//\<close>, and cuts the fragment and the
  query; \<open>urlparse\<close> then cuts the parameters of the last segment (\<open>_splitparams\<close>).
\<close>

definition scheme_char :: "nat \<Rightarrow> bool" where
  "scheme_char c \<longleftrightarrow>
     (97 \<le> c \<and> c \<le> 122) \<or> (65 \<le> c \<and> c \<le> 90) \<or> (48 \<le> c \<and> c \<le> 57) \<or> c \<in> {43, 45, 46}"

definition ascii_alpha :: "nat \<Rightarrow> bool" where
  "ascii_alpha c \<longleftrightarrow> (97 \<le> c \<and> c \<le> 122) \<or> (65 \<le> c \<and> c \<le> 90)"

definition ascii_lower :: "nat \<Rightarrow> nat" where
  "ascii_lower c = (if 65 \<le> c \<and> c \<le> 90 then c + 32 else c)"

definition uses_params :: "pystr list" where
  "uses_params = map ustr
     ['''', ''ftp'', ''hdl'', ''prospero'', ''http'', ''imap'', ''https'', ''shttp'', ''rtsp'',
      ''rtsps'', ''rtspu'', ''sip'', ''sips'', ''mms'', ''sftp'', ''tel'']"

definition split_scheme :: "pystr \<Rightarrow> pystr \<times> pystr" where
  "split_scheme url =
     (let i = length (takeWhile (\<lambda>c. c \<noteq> 58) url) in
      if 58 \<in> set url \<and> 0 < i \<and> ascii_alpha (hd url) \<and> list_all scheme_char (take i url)
      then (map ascii_lower (take i url), drop (i + 1) url)
      else ([], url))"

definition url_delim :: "nat \<Rightarrow> bool" where
  "url_delim c \<longleftrightarrow> c \<in> {47, 63, 35}"

definition splitparams :: "pystr \<Rightarrow> pystr" where
  "splitparams url =
     (let seg = basename url; head = take (length url - length seg) url
      in head @ takeWhile (\<lambda>c. c \<noteq> 59) seg)"

definition urlparse_path :: "pylib \<Rightarrow> pystr \<Rightarrow> exn + pystr" where
  "urlparse_path lib url0 =
     (let url1 = filter (\<lambda>c. c \<notin> {9, 13, 10}) (lstrip (\<lambda>c. c \<le> 32) url0);
          (scheme, url2) = split_scheme url1;
          has_netloc = (take 2 url2 = [47, 47]);
          netloc = (if has_netloc then takeWhile (\<lambda>c. \<not> url_delim c) (drop 2 url2) else []);
          url3 = (if has_netloc then dropWhile (\<lambda>c. \<not> url_delim c) (drop 2 url2) else url2);
          url4 = takeWhile (\<lambda>c. c \<noteq> 63) (takeWhile (\<lambda>c. c \<noteq> 35) url3)
      in if (91 \<in> set netloc) \<noteq> (93 \<in> set netloc) then Inl (ValueError (ustr ''Invalid IPv6 URL''))
         else (case netloc_error lib netloc of
                 Some msg \<Rightarrow> Inl (ValueError msg)
               | None \<Rightarrow>
                   Inr (if scheme \<in> set uses_params \<and> 59 \<in> set url4 then splitparams url4 else url4)))"

subsection \<open>The response\<close>

text \<open>
  A \<open>requests.Response\<close> opened with \<open>stream=True\<close>: the status code, the headers (a
  case-insensitive dictionary, here a map from lower-case header names), the chunks
  that \<open>iter_content(chunk_size=8192)\<close> yields while the body streams, and the
  exception that ends the stream after these chunks, if the transfer breaks.
\<close>

record response =
  status_code :: nat
  headers :: "latin1 \<rightharpoonup> latin1"
  body :: "bytes list"
  body_error :: "exn option"

definition headers_get :: "response \<Rightarrow> latin1 \<Rightarrow> latin1 \<Rightarrow> latin1" where
  "headers_get r k dflt = (case headers r k of Some v \<Rightarrow> v | None \<Rightarrow> dflt)"

subsection \<open>File names\<close>

definition get_content_type_extension :: "pylib \<Rightarrow> response \<Rightarrow> pystr" where
  "get_content_type_extension lib r =
     (let content_type = headers_get r ''content-type'' '''' in
      if str_contains ''image/'' content_type then
        (case guess_extension lib content_type of
           Some extension \<Rightarrow> if extension \<noteq> [] then extension else ustr ''.jpg''
         | None \<Rightarrow> ustr ''.jpg'')
      else ustr ''.jpg'')"

text \<open>The last statement of \<open>generate_filename\<close>: keep \<open>c\<close> when \<open>c.isalnum() or c in '.-_'\<close>.\<close>

definition sanitize :: "pylib \<Rightarrow> pystr \<Rightarrow> pystr" where
  "sanitize lib filename = filter (\<lambda>c. isalnum lib c \<or> c \<in> set (ustr ''.-_'')) filename"

definition quote_char :: "char \<Rightarrow> bool" where
  "quote_char c \<longleftrightarrow> c \<in> set [CHR 0x22, CHR 0x27]"

text \<open>
  \<open>generate_filename(url, response)\<close>; \<open>now\<close> is the value of \<open>int(time.time())\<close> at
  the call.  The result is \<open>Inl\<close> when \<open>urlparse\<close> raises.
\<close>

definition generate_filename :: "pylib \<Rightarrow> int \<Rightarrow> pystr \<Rightarrow> response \<Rightarrow> exn + pystr" where
  "generate_filename lib now url r =
     (case urlparse_path lib url of
        Inl e \<Rightarrow> Inl e
      | Inr path \<Rightarrow>
          (let filename = basename (unquote lib path);
               filename' =
                 (if filename = [] \<or> 46 \<notin> set filename then
                    (let content_disposition = headers_get r ''content-disposition'' '''' in
                     if str_contains ''filename='' content_disposition
                     then ustr (strip quote_char (str_split ''filename='' content_disposition ! 1))
                     else ustr ''ubuntu_image_'' @ str_of_int now @ get_content_type_extension lib r)
                  else filename)
           in Inr (sanitize lib filename')))"

subsection \<open>Validation\<close>

text \<open>The signatures of \<open>validate_image_response\<close>: JPEG, PNG, GIF87a, GIF89a, BMP.\<close>

definition image_signatures :: "bytes list" where
  "image_signatures =
     [[CHR 0xFF, CHR 0xD8, CHR 0xFF],
      [CHR 0x89, CHR ''P'', CHR ''N'', CHR ''G'', CHR 0x0D, CHR 0x0A, CHR 0x1A, CHR 0x0A],
      ''GIF87a'',
      ''GIF89a'',
      [CHR 0x42, CHR 0x4D]]"

text \<open>
  \<open>response.content\<close>: the whole body, read from the stream; the exception of a
  broken transfer is raised here.
\<close>

definition content :: "response \<Rightarrow> exn + bytes" where
  "content r = (case body_error r of Some e \<Rightarrow> Inl e | None \<Rightarrow> Inr (concat (body r)))"

definition not_image_message :: pystr where
  "not_image_message = ustr ''URL does not point to a valid image file''"

definition validate_image_response :: "response \<Rightarrow> exn + bool" where
  "validate_image_response r =
     (let content_type = lower (headers_get r ''content-type'' '''') in
      if \<not> startswith content_type ''image/'' then
        (case content r of
           Inl e \<Rightarrow> Inl e
         | Inr c \<Rightarrow>
             (let content_start = take 10 c in
              if \<not> list_ex (\<lambda>sig. startswith content_start sig) image_signatures
              then Inl (ValueError not_image_message)
              else Inr True))
      else Inr True)"

subsection \<open>The size advisory\<close>

text \<open>
  \<open>int(s)\<close> for a header value: white space around the literal is dropped (for a
  string of code points below 256: TAB to CR, space, \<open>U+0085\<close>, \<open>U+00A0\<close>), a sign may
  come first, and the digits may be grouped by single underscores.  A literal with more
  digits than \<open>sys.get_int_max_str_digits()\<close> is refused as well.
\<close>

definition int_space :: "char \<Rightarrow> bool" where
  "int_space c \<longleftrightarrow> (of_char c :: nat) \<in> {9, 10, 11, 12, 13, 32, 133, 160}"

definition is_digit :: "char \<Rightarrow> bool" where
  "is_digit c \<longleftrightarrow> 48 \<le> (of_char c :: nat) \<and> (of_char c :: nat) \<le> 57"

fun digit_run :: "char list \<Rightarrow> bool" where
  "digit_run [] = False"
| "digit_run [c] = is_digit c"
| "digit_run (c # d # cs) =
     (is_digit c \<and> (if d = CHR ''_'' then digit_run cs else digit_run (d # cs)))"

definition py_int :: "pylib \<Rightarrow> latin1 \<Rightarrow> exn + int" where
  "py_int lib s =
     (let t = strip int_space s;
          signed = (take 1 t = ''-'' \<or> take 1 t = ''+'');
          d = (if signed then drop 1 t else t);
          ds = filter is_digit d;
          magnitude = foldl (\<lambda>a c. 10 * a + (int (of_char c) - 48)) 0 ds
      in if \<not> digit_run d then Inl (ValueError (int_error_text lib s))
         else if 0 < max_str_digits lib \<and> max_str_digits lib < length ds
         then Inl (ValueError (int_error_text lib s))
         else Inr (if take 1 t = ''-'' then - magnitude else magnitude))"

text \<open>
  Lines 118 to 120 of \<open>fetch_image\<close>: \<open>Inr b\<close> when the statement completes, \<open>b\<close>
  telling whether the advisory was printed; \<open>Inl\<close> when \<open>int\<close> raises.
\<close>

definition content_length_check :: "pylib \<Rightarrow> response \<Rightarrow> exn + bool" where
  "content_length_check lib r =
     (case headers r ''content-length'' of
        None \<Rightarrow> Inr False
      | Some content_length \<Rightarrow>
          if content_length = [] then Inr False
          else (case py_int lib content_length of
                  Inl e \<Rightarrow> Inl e
                | Inr n \<Rightarrow> Inr (n > 50 * 1024 * 1024)))"

subsection \<open>Status\<close>

text \<open>
  \<open>Response.raise_for_status()\<close> raises \<open>HTTPError(..., response=self)\<close> exactly for
  the status codes from 400 to 599.  The truth value of a response
  (\<open>Response.__bool__\<close>) is its \<open>ok\<close> attribute: whether \<open>raise_for_status\<close> would
  return without raising.
\<close>

definition raise_for_status :: "response \<Rightarrow> exn option" where
  "raise_for_status r =
     (if 400 \<le> status_code r \<and> status_code r < 600
      then Some (HTTPError (Some (status_code r))) else None)"

definition response_truthy :: "nat \<Rightarrow> bool" where
  "response_truthy code \<longleftrightarrow> \<not> (400 \<le> code \<and> code < 600)"

subsection \<open>The body stream\<close>

text \<open>
  \<open>iter_content(chunk_size=8192)\<close>.  Once \<open>content\<close> has been read (the validator
  read it), the iterator yields slices of the stored body (\<open>iter_slices\<close>); otherwise
  it yields the chunks of the stream and then raises what broke the transfer.
\<close>

function slices :: "bytes \<Rightarrow> nat \<Rightarrow> bytes list" where
  "slices s n = (if s = [] \<or> n = 0 then [] else take n s # slices (drop n s) n)"
  by pat_completeness auto
termination
  by (relation "measure (\<lambda>(s, n). length s)") auto

declare slices.simps [simp del]

definition iter_slices :: "bytes \<Rightarrow> nat \<Rightarrow> bytes list" where
  "iter_slices string slice_length =
     slices string (if slice_length = 0 then length string else slice_length)"

definition content_consumed :: "response \<Rightarrow> bool" where
  "content_consumed r \<longleftrightarrow>
     \<not> startswith (lower (headers_get r ''content-type'' '''')) ''image/''"

definition iter_content :: "response \<Rightarrow> bytes list \<times> exn option" where
  "iter_content r =
     (if content_consumed r then (iter_slices (concat (body r)) 8192, None)
      else (body r, body_error r))"

subsection \<open>The fetch attempt\<close>

text \<open>
  What one attempt meets outside the program: the exception raised by
  \<open>Path(directory).mkdir(exist_ok=True)\<close>, if any; the result of \<open>requests.get\<close>;
  the clock read by \<open>time.time()\<close>, in whole seconds; the exception raised by
  \<open>open(filepath, 'wb')\<close>, if any; the exception raised by \<open>f.write\<close> when the file
  already holds a given number of bytes, if any; and the regular files on disk, by path.
\<close>

record world =
  mkdir :: "pystr \<Rightarrow> exn option"
  http_get :: "pystr \<Rightarrow> exn + response"
  clock :: int
  open_wb :: "pystr \<Rightarrow> exn option"
  write_error :: "nat \<Rightarrow> exn option"
  files :: "pystr \<rightharpoonup> bytes"

text \<open>
  The result of \<open>fetch_image\<close>.  \<open>Success p n\<close> is \<open>return True, str(filepath)\<close> with
  \<open>p\<close> the path, after the size report computed from \<open>total_size = n\<close> was printed.
  \<open>Failure k m\<close> is \<open>return False, m\<close> from the \<open>except\<close> clause \<open>k\<close>, whose report it
  printed.  An exception that leaves \<open>fetch_image\<close> is \<open>Propagated\<close>.
\<close>

datatype reason =
    TimeoutFailure
  | ConnectionFailure
  | HTTPStatusError
  | ContentValidationError
  | PermissionDenied
  | Unexpected

datatype fetch_result = Success pystr nat | Failure reason pystr

datatype outcome = Returned fetch_result | Propagated exn

text \<open>The loop of lines 127 to 130, on the file content so far and \<open>total_size\<close>.\<close>

fun write_chunks ::
  "(nat \<Rightarrow> exn option) \<Rightarrow> bytes list \<Rightarrow> bytes \<Rightarrow> nat \<Rightarrow> exn option \<times> bytes \<times> nat" where
  "write_chunks wr [] f total_size = (None, f, total_size)"
| "write_chunks wr (chunk # rest) f total_size =
     (if chunk \<noteq> [] then
        (case wr (length f) of
           Some e \<Rightarrow> (Some e, f, total_size)
         | None \<Rightarrow> write_chunks wr rest (f @ chunk) (total_size + length chunk))
      else write_chunks wr rest f total_size)"

text \<open>
  Lines 125 to 130: the file is opened in mode \<open>'wb'\<close> (created or truncated), the
  chunks are written, and the file is closed on every exit of the \<open>with\<close> block.
\<close>

definition save_stream :: "world \<Rightarrow> pystr \<Rightarrow> response \<Rightarrow> (exn + nat) \<times> (pystr \<rightharpoonup> bytes)" where
  "save_stream w filepath r =
     (case open_wb w filepath of
        Some e \<Rightarrow> (Inl e, files w)
      | None \<Rightarrow>
          (case write_chunks (write_error w) (fst (iter_content r)) [] 0 of
             (Some e, f, total_size) \<Rightarrow> (Inl e, (files w)(filepath \<mapsto> f))
           | (None, f, total_size) \<Rightarrow>
               (case snd (iter_content r) of
                  Some e \<Rightarrow> (Inl e, (files w)(filepath \<mapsto> f))
                | None \<Rightarrow> (Inr total_size, (files w)(filepath \<mapsto> f)))))"

text \<open>The body of the \<open>try\<close> statement, lines 99 to 139.\<close>

definition try_body ::
  "pylib \<Rightarrow> world \<Rightarrow> pystr \<Rightarrow> pystr \<Rightarrow> (exn + pystr \<times> nat) \<times> (pystr \<rightharpoonup> bytes)" where
  "try_body lib w url directory =
     (case http_get w url of
        Inl e \<Rightarrow> (Inl e, files w)
      | Inr r \<Rightarrow>
          (case raise_for_status r of
             Some e \<Rightarrow> (Inl e, files w)
           | None \<Rightarrow>
               (case validate_image_response r of
                  Inl e \<Rightarrow> (Inl e, files w)
                | Inr _ \<Rightarrow>
                    (case generate_filename lib (clock w) url r of
                       Inl e \<Rightarrow> (Inl e, files w)
                     | Inr filename \<Rightarrow>
                         (let filepath = path_join lib directory filename in
                          case content_length_check lib r of
                            Inl e \<Rightarrow> (Inl e, files w)
                          | Inr _ \<Rightarrow>
                              (case save_stream w filepath r of
                                 (Inl e, fs) \<Rightarrow> (Inl e, fs)
                               | (Inr total_size, fs) \<Rightarrow> (Inr (filepath, total_size), fs)))))))"

text \<open>The \<open>except\<close> clauses, lines 141 to 170, in their order.\<close>

fun except_clauses :: "exn \<Rightarrow> outcome" where
  "except_clauses Timeout = Returned (Failure TimeoutFailure (ustr ''Timeout error''))"
| "except_clauses ConnectionError =
     Returned (Failure ConnectionFailure (ustr ''Connection error''))"
| "except_clauses (HTTPError resp) =
     (let status_code =
            (case resp of
               Some code \<Rightarrow> if response_truthy code then str_of_int (int code) else ustr ''Unknown''
             | None \<Rightarrow> ustr ''Unknown'')
      in Returned (Failure HTTPStatusError (ustr ''HTTP '' @ status_code @ ustr '' error'')))"
| "except_clauses (ValueError msg) = Returned (Failure ContentValidationError msg)"
| "except_clauses PermissionError =
     Returned (Failure PermissionDenied (ustr ''Permission denied''))"
| "except_clauses (OtherException msg) = Returned (Failure Unexpected msg)"
| "except_clauses Interrupt = Propagated Interrupt"

text \<open>
  \<open>fetch_image(url, directory)\<close>: the outcome and the files on disk afterwards.  The
  directory is created at line 95, before the \<open>try\<close> statement opens at line 98.
\<close>

definition fetch_image ::
  "pylib \<Rightarrow> world \<Rightarrow> pystr \<Rightarrow> pystr \<Rightarrow> outcome \<times> (pystr \<rightharpoonup> bytes)" where
  "fetch_image lib w url directory =
     (case mkdir w directory of
        Some e \<Rightarrow> (Propagated e, files w)
      | None \<Rightarrow>
          (case try_body lib w url directory of
             (Inl e, fs) \<Rightarrow> (except_clauses e, fs)
           | (Inr (filepath, total_size), fs) \<Rightarrow> (Returned (Success filepath total_size), fs)))"

subsection \<open>The vocabulary of the specification\<close>

text \<open>The character set \<open>[A-Za-z0-9.\-_]\<close> that the specification gives for file names.\<close>

definition ascii_safe :: "nat \<Rightarrow> bool" where
  "ascii_safe c \<longleftrightarrow>
     (65 \<le> c \<and> c \<le> 90) \<or> (97 \<le> c \<and> c \<le> 122) \<or> (48 \<le> c \<and> c \<le> 57) \<or> c \<in> {46, 45, 95}"

text \<open>
  ``Starts with, compared case-insensitively'': the string is long enough, and each of
  its leading characters equals the prefix's character or differs from it only by the
  case of an ASCII letter.
\<close>

definition ascii_letter :: "char \<Rightarrow> bool" where
  "ascii_letter c \<longleftrightarrow>
     (65 \<le> (of_char c :: nat) \<and> (of_char c :: nat) \<le> 90) \<or>
     (97 \<le> (of_char c :: nat) \<and> (of_char c :: nat) \<le> 122)"

definition same_letter :: "char \<Rightarrow> char \<Rightarrow> bool" where
  "same_letter a b \<longleftrightarrow>
     a = b \<or>
     (ascii_letter a \<and> ascii_letter b \<and>
      ((of_char a :: nat) + 32 = of_char b \<or> (of_char b :: nat) + 32 = of_char a))"

definition starts_ignoring_case :: "latin1 \<Rightarrow> latin1 \<Rightarrow> bool" where
  "starts_ignoring_case s p \<longleftrightarrow>
     length p \<le> length s \<and> list_all2 same_letter (take (length p) s) p"

text \<open>The five signatures as the specification lists them, and the prefix match on the
  first 10 bytes.\<close>

definition spec_signatures :: "bytes list" where
  "spec_signatures =
     [[CHR 0xFF, CHR 0xD8, CHR 0xFF],
      [CHR 0x89, CHR 0x50, CHR 0x4E, CHR 0x47, CHR 0x0D, CHR 0x0A, CHR 0x1A, CHR 0x0A],
      [CHR 0x47, CHR 0x49, CHR 0x46, CHR 0x38, CHR 0x37, CHR 0x61],
      [CHR 0x47, CHR 0x49, CHR 0x46, CHR 0x38, CHR 0x39, CHR 0x61],
      [CHR 0x42, CHR 0x4D]]"

definition has_image_signature :: "bytes \<Rightarrow> bool" where
  "has_image_signature c \<longleftrightarrow> list_ex (\<lambda>sig. prefix sig (take 10 c)) spec_signatures"

definition declares_image :: "response \<Rightarrow> bool" where
  "declares_image r \<longleftrightarrow> starts_ignoring_case (headers_get r ''content-type'' '''') ''image/''"

subsection \<open>A concrete installation and concrete attempts\<close>

text \<open>
  An installation for the examples: a POSIX system whose MIME tables hold the usual
  entries for PNG and JPEG, with the default limit on integer literals.  The examples
  use URLs without \<open>%\<close> and with a plain host name, strings of code points below 256,
  a directory name without separators and file names other than \<open>.\<close>; on these the
  fields below are what CPython 3.11 computes.
\<close>

definition example_lib :: pylib where
  "example_lib =
     \<lparr> uni_isalnum = (\<lambda>c. False),
       unquote_escapes = (\<lambda>s. s),
       netloc_error = (\<lambda>n. None),
       guess_extension =
         (\<lambda>t. map_of [(''image/png'', ustr ''.png''), (''image/jpeg'', ustr ''.jpg'')] (lower t)),
       path_join = (\<lambda>d f. d @ ustr ''/'' @ f),
       max_str_digits = 4300,
       int_error_text =
         (\<lambda>s. ustr ''invalid literal for int() with base 10: '' @ [39] @ ustr s @ [39]) \<rparr>"

definition plain_response :: response where
  "plain_response = \<lparr> status_code = 200, headers = Map.empty, body = [], body_error = None \<rparr>"

text \<open>A response whose \<open>Content-Disposition\<close> header is \<open>attachment; filename=""\<close>.\<close>

definition empty_name_response :: response where
  "empty_name_response =
     plain_response \<lparr> headers := [''content-disposition'' \<mapsto> ''attachment; filename=\"\"''] \<rparr>"

text \<open>
  A response with status \<open>c\<close> that declares and carries a PNG image, streamed in three
  chunks of which the second is empty; a 404 page; a plain text document; and the PNG
  response with the header \<open>Content-Length: abc\<close>.
\<close>

definition png_chunk :: bytes where
  "png_chunk = [CHR 0x89, CHR ''P'', CHR ''N'', CHR ''G'', CHR 0x0D, CHR 0x0A, CHR 0x1A, CHR 0x0A]"

definition png_response :: "nat \<Rightarrow> response" where
  "png_response c =
     \<lparr> status_code = c, headers = [''content-type'' \<mapsto> ''image/png''],
       body = [png_chunk, [], ''data''], body_error = None \<rparr>"

definition not_found_response :: response where
  "not_found_response =
     \<lparr> status_code = 404, headers = [''content-type'' \<mapsto> ''text/html''],
       body = [''hello''], body_error = None \<rparr>"

definition text_response :: response where
  "text_response =
     \<lparr> status_code = 200, headers = [''content-type'' \<mapsto> ''text/plain''],
       body = [''hello''], body_error = None \<rparr>"

definition bad_length_response :: response where
  "bad_length_response =
     \<lparr> status_code = 200,
       headers = [''content-type'' \<mapsto> ''image/png'', ''content-length'' \<mapsto> ''abc''],
       body = [png_chunk, [], ''data''], body_error = None \<rparr>"

text \<open>
  Two responses whose transfer breaks after the first chunks have arrived: neither
  declares a content type; the body of the first starts with the PNG signature, the
  body of the second is the text \<open>hello\<close>.
\<close>

definition broken_png_response :: response where
  "broken_png_response =
     \<lparr> status_code = 200, headers = Map.empty,
       body = [png_chunk, ''data''], body_error = Some ConnectionError \<rparr>"

definition broken_text_response :: response where
  "broken_text_response =
     \<lparr> status_code = 200, headers = Map.empty,
       body = [''hello''], body_error = Some ConnectionError \<rparr>"

text \<open>
  An attempt in which the directory can be created, the request returns the response
  \<open>r\<close>, the clock reads 7, every file can be opened and written, and the disk holds
  the files \<open>fs\<close>.
\<close>

definition world_of :: "response \<Rightarrow> (pystr \<rightharpoonup> bytes) \<Rightarrow> world" where
  "world_of r fs =
     \<lparr> mkdir = (\<lambda>d. None), http_get = (\<lambda>u. Inr r), clock = 7,
       open_wb = (\<lambda>p. None), write_error = (\<lambda>n. None), files = fs \<rparr>"

definition example_url :: pystr where
  "example_url = ustr ''https://x/a.png''"

definition example_dir :: pystr where
  "example_dir = ustr ''Fetched_Images''"

definition example_path :: pystr where
  "example_path = ustr ''Fetched_Images/a.png''"

section \<open>Properties\<close>

subsection \<open>File names\<close>

text \<open>
  Where \<open>sep in s\<close> holds, \<open>s.split(sep)\<close> has a second element: the index 1 that
  \<open>generate_filename\<close> reads is in range, and no \<open>IndexError\<close> can arise there.
\<close>

lemma split_from_nonempty: "split_from sep acc s \<noteq> []"
  by (induction sep acc s rule: split_from.induct) auto

lemma split_from_length:
  "sep \<noteq> [] \<Longrightarrow> str_contains sep s \<Longrightarrow> 1 < length (split_from sep acc s)"
proof (induction sep acc s rule: split_from.induct)
  case (1 sep acc)
  then show ?case by simp
next
  case (2 sep acc c cs)
  show ?case
  proof (cases "startswith (c # cs) sep")
    case True
    with 2(3) split_from_nonempty [of sep "[]" "drop (length sep - 1) cs"] show ?thesis
      by (cases "split_from sep [] (drop (length sep - 1) cs)") auto
  next
    case False
    with 2 show ?thesis by simp
  qed
qed

lemma str_split_second:
  "sep \<noteq> [] \<Longrightarrow> str_contains sep s \<Longrightarrow> 1 < length (str_split sep s)"
  unfolding str_split_def by (rule split_from_length)

lemma sanitize_keeps: "c \<in> set (sanitize lib s) \<Longrightarrow> isalnum lib c \<or> c \<in> {46, 45, 95}"
  by (auto simp: sanitize_def ustr_def)

lemma isalnum_ascii: "c < 128 \<Longrightarrow> isalnum lib c \<Longrightarrow> ascii_safe c"
  by (auto simp: isalnum_def latin1_isalnum_def ascii_safe_def)

text \<open>
  Claim C3 asks that \<open>generate_filename\<close> never returns the empty string and falls back
  to the timestamp name when sanitization empties the candidate.  The source has no
  such fallback: for the URL \<open>https://x/img\<close> and the header
  \<open>Content-Disposition: attachment; filename=""\<close> the last path segment \<open>img\<close> has no
  dot, the header contains \<open>filename=\<close>, the candidate is the empty string between the
  quotes, and the function returns the empty string.
\<close>

theorem generate_filename_empty:
  "generate_filename example_lib 7 (ustr ''https://x/img'') empty_name_response = Inr []"
  by code_simp

text \<open>
  Claim C4, as amended: the sanitization step emits only characters of
  \<open>[A-Za-z0-9.\-_]\<close> and non-ASCII characters for which \<open>str.isalnum()\<close> holds; its
  output is the input with the other characters removed (dropped, not replaced, and
  every character of \<open>[A-Za-z0-9.\-_]\<close> kept in place); slash, backslash, space and
  percent sign never survive.
\<close>

theorem sanitize_emits:
  "list_all (\<lambda>c. ascii_safe c \<or> (128 \<le> c \<and> isalnum lib c)) (sanitize lib s)
   \<and> subseq (sanitize lib s) s
   \<and> filter ascii_safe (sanitize lib s) = filter ascii_safe s
   \<and> list_all (\<lambda>c. c \<notin> {47, 92, 32, 37}) (sanitize lib s)"
proof (intro conjI)
  show "list_all (\<lambda>c. ascii_safe c \<or> (128 \<le> c \<and> isalnum lib c)) (sanitize lib s)"
    unfolding list_all_iff
  proof
    fix c assume "c \<in> set (sanitize lib s)"
    then have k: "isalnum lib c \<or> c \<in> {46, 45, 95}" by (rule sanitize_keeps)
    show "ascii_safe c \<or> (128 \<le> c \<and> isalnum lib c)"
    proof (cases "c < 128")
      case True
      with k show ?thesis using isalnum_ascii [of c lib] by (auto simp: ascii_safe_def)
    next
      case False
      with k show ?thesis by auto
    qed
  qed
  show "subseq (sanitize lib s) s" by (simp add: sanitize_def)
  show "filter ascii_safe (sanitize lib s) = filter ascii_safe s"
    unfolding sanitize_def filter_filter
    by (rule filter_cong) (auto simp: ascii_safe_def isalnum_def latin1_isalnum_def ustr_def)
  show "list_all (\<lambda>c. c \<notin> {47, 92, 32, 37}) (sanitize lib s)"
    unfolding list_all_iff
    by (auto simp: sanitize_def isalnum_def latin1_isalnum_def ustr_def)
qed

text \<open>
  Claim C4 as stated fails: the file name \<open>cafe.png\<close> spelt with \<open>U+00E9\<close> as its fourth
  character passes the sanitization unchanged, since \<open>str.isalnum()\<close> holds for
  \<open>U+00E9\<close>, which is outside \<open>[A-Za-z0-9.\-_]\<close>.
\<close>

theorem sanitize_ascii_only_counterexample:
  "\<not> list_all ascii_safe (sanitize example_lib [99, 97, 102, 233, 46, 112, 110, 103])"
  by (simp add: sanitize_def isalnum_def latin1_isalnum_def ustr_def ascii_safe_def)




subsection \<open>Validation\<close>

lemma startswith_prefix: "startswith s p \<longleftrightarrow> prefix p s"
  unfolding startswith_def prefix_def
  by (metis append_eq_conv_conj append_take_drop_id)

lemma spec_signatures_eq: "spec_signatures = image_signatures"
  by (simp add: spec_signatures_def image_signatures_def)

lemma has_image_signature_iff:
  "has_image_signature c \<longleftrightarrow> list_ex (\<lambda>sig. startswith (take 10 c) sig) image_signatures"
  by (simp add: has_image_signature_def spec_signatures_eq startswith_prefix)

lemma lower_char_code:
  "(of_char (lower_char c) :: nat) =
     (if (65 \<le> (of_char c :: nat) \<and> (of_char c :: nat) \<le> 90)
         \<or> (192 \<le> (of_char c :: nat) \<and> (of_char c :: nat) \<le> 222 \<and> (of_char c :: nat) \<noteq> 215)
      then of_char c + 32 else of_char c)"
  by (auto simp: lower_char_def Let_def)

lemma char_eq_code: "a = b \<longleftrightarrow> (of_char a :: nat) = of_char b"
  by auto

lemma lower_char_same_letter:
  assumes "(of_char t :: nat) < 128"
    and "\<not> (65 \<le> (of_char t :: nat) \<and> (of_char t :: nat) \<le> 90)"
  shows "lower_char c = t \<longleftrightarrow> same_letter c t"
proof -
  have "lower_char c = t \<longleftrightarrow> (of_char (lower_char c) :: nat) = of_char t"
    by (rule char_eq_code)
  also have "\<dots> \<longleftrightarrow> same_letter c t"
    using assms unfolding lower_char_code same_letter_def ascii_letter_def char_eq_code [of c t]
    by auto
  finally show ?thesis .
qed

lemma map_eq_list_all2: "map f xs = ys \<longleftrightarrow> list_all2 (\<lambda>a b. f a = b) xs ys"
  by (induction xs arbitrary: ys) (auto simp: list_all2_Cons1)

text \<open>
  Lower-casing the string and comparing with a prefix that has no capital letter is the
  case-insensitive comparison.
\<close>

lemma startswith_lower:
  assumes "\<And>b. b \<in> set p \<Longrightarrow>
             (of_char b :: nat) < 128 \<and> \<not> (65 \<le> (of_char b :: nat) \<and> (of_char b :: nat) \<le> 90)"
  shows "startswith (lower s) p \<longleftrightarrow> starts_ignoring_case s p"
proof -
  have "startswith (lower s) p \<longleftrightarrow> map lower_char (take (length p) s) = p"
    by (simp only: startswith_def lower_def take_map)
  also have "\<dots> \<longleftrightarrow> list_all2 (\<lambda>a b. lower_char a = b) (take (length p) s) p"
    by (rule map_eq_list_all2)
  also have "\<dots> \<longleftrightarrow> list_all2 same_letter (take (length p) s) p"
  proof (rule list.rel_cong [OF refl refl])
    fix a b assume "b \<in> set p"
    from assms [OF this] show "(lower_char a = b) = same_letter a b"
      using lower_char_same_letter [of b a] by simp
  qed
  also have "\<dots> \<longleftrightarrow> starts_ignoring_case s p"
    by (auto simp: starts_ignoring_case_def dest: list_all2_lengthD)
  finally show ?thesis .
qed

lemma startswith_lower_image:
  "startswith (lower s) ''image/'' \<longleftrightarrow> starts_ignoring_case s ''image/''"
  by (rule startswith_lower) auto

lemma validate_image_response_cases:
  "validate_image_response r =
     (if declares_image r then Inr True
      else case content r of
             Inl e \<Rightarrow> Inl e
           | Inr c \<Rightarrow> if has_image_signature c then Inr True
                      else Inl (ValueError not_image_message))"
  by (simp add: validate_image_response_def declares_image_def startswith_lower_image
      has_image_signature_iff Let_def split: sum.splits)

text \<open>
  Claim C6, as amended: the validator accepts a response exactly when its
  \<open>Content-Type\<close> header starts with \<open>image/\<close>, compared case-insensitively, or its
  body is read without a transport error and the first 10 bytes of the body have one of
  the five signatures as a prefix; a response whose body \<open>c\<close> is read without a
  transport error and that meets neither condition is rejected with the message
  ``URL does not point to a valid image file''.
\<close>

theorem validate_image_response_accepts:
  "(validate_image_response r = Inr True
      \<longleftrightarrow> declares_image r \<or> (\<exists>c. content r = Inr c \<and> has_image_signature c))
   \<and> (content r = Inr c \<and> \<not> declares_image r \<and> \<not> has_image_signature c
      \<longrightarrow> validate_image_response r
            = Inl (ValueError (ustr ''URL does not point to a valid image file'')))"
  by (auto simp: validate_image_response_cases not_image_message_def split: sum.splits)

theorem validate_image_response_accepts_witness:
  "validate_image_response (plain_response\<lparr>headers := [''content-type'' \<mapsto> ''Image/PNG'']\<rparr>)
     = Inr True
   \<and> validate_image_response (plain_response\<lparr>body := [png_chunk, ''data'']\<rparr>) = Inr True
   \<and> validate_image_response text_response
     = Inl (ValueError (ustr ''URL does not point to a valid image file''))"
proof (intro conjI)
  have "declares_image (plain_response\<lparr>headers := [''content-type'' \<mapsto> ''Image/PNG'']\<rparr>)"
    by code_simp
  with validate_image_response_accepts
    [of "plain_response\<lparr>headers := [''content-type'' \<mapsto> ''Image/PNG'']\<rparr>" "[]"]
  show "validate_image_response (plain_response\<lparr>headers := [''content-type'' \<mapsto> ''Image/PNG'']\<rparr>)
          = Inr True"
    by simp
next
  have "content (plain_response\<lparr>body := [png_chunk, ''data'']\<rparr>) = Inr (png_chunk @ ''data'')"
    and "has_image_signature (png_chunk @ ''data'')"
    by code_simp+
  with validate_image_response_accepts [of "plain_response\<lparr>body := [png_chunk, ''data'']\<rparr>" "[]"]
  show "validate_image_response (plain_response\<lparr>body := [png_chunk, ''data'']\<rparr>) = Inr True"
    by simp
next
  have "content text_response = Inr ''hello''" and "\<not> declares_image text_response"
    and "\<not> has_image_signature ''hello''"
    by code_simp+
  with validate_image_response_accepts [of text_response "''hello''"]
  show "validate_image_response text_response
          = Inl (ValueError (ustr ''URL does not point to a valid image file''))"
    by simp
qed

text \<open>
  Claim C6 as stated fails: without an image content type the validator reads
  \<open>response.content\<close>, the whole body, before it looks at the first 10 bytes.  When the
  transfer breaks, the exception of the transfer is raised there: a body that starts
  with the PNG signature is not accepted, and a body that matches no signature is not
  rejected with the message of the validator.
\<close>

theorem validate_image_response_broken_counterexample:
  "has_image_signature (concat (body broken_png_response))
   \<and> validate_image_response broken_png_response = Inl ConnectionError
   \<and> \<not> declares_image broken_text_response
   \<and> \<not> has_image_signature (concat (body broken_text_response))
   \<and> validate_image_response broken_text_response = Inl ConnectionError"
proof (intro conjI)
  show "has_image_signature (concat (body broken_png_response))" by code_simp
  show "validate_image_response broken_png_response = Inl ConnectionError" by code_simp
  show "\<not> declares_image broken_text_response" by code_simp
  show "\<not> has_image_signature (concat (body broken_text_response))" by code_simp
  show "validate_image_response broken_text_response = Inl ConnectionError" by code_simp
qed

subsection \<open>The write loop and the stream\<close>

lemma write_chunks_done:
  "write_chunks wr cs f t = (None, f', t') \<Longrightarrow>
     f' = f @ concat cs \<and> t' = t + sum_list (map length cs)"
proof (induction cs arbitrary: f t)
  case Nil
  then show ?case by simp
next
  case (Cons c cs)
  show ?case
  proof (cases "c = []")
    case True
    with Cons show ?thesis by simp
  next
    case False
    with Cons.prems obtain "wr (length f) = None"
      and "write_chunks wr cs (f @ c) (t + length c) = (None, f', t')"
      by (auto split: option.splits)
    with Cons.IH [of "f @ c" "t + length c"] show ?thesis by simp
  qed
qed

lemma write_chunks_skip_empty:
  "write_chunks wr (filter (\<lambda>c. c \<noteq> []) cs) f t = write_chunks wr cs f t"
  by (induction cs arbitrary: f t) (auto split: option.splits)

lemma concat_slices: "0 < n \<Longrightarrow> concat (slices s n) = s"
proof (induction s n rule: slices.induct)
  case (1 s n)
  show ?case
  proof (cases "s = []")
    case True
    then show ?thesis by (simp add: slices.simps)
  next
    case False
    with 1 have "concat (slices (drop n s) n) = drop n s" by simp
    with False 1(2) show ?thesis by (subst slices.simps) simp
  qed
qed

lemma concat_iter_content: "concat (fst (iter_content r)) = concat (body r)"
  by (simp add: iter_content_def iter_slices_def concat_slices)

lemma length_concat_sum: "length (concat xs) = sum_list (map length xs)"
  by (induction xs) auto

lemma save_stream_success:
  assumes "save_stream w p r = (Inr n, fs)"
  shows "open_wb w p = None
         \<and> write_chunks (write_error w) (fst (iter_content r)) [] 0
             = (None, concat (fst (iter_content r)), n)
         \<and> snd (iter_content r) = None
         \<and> n = sum_list (map length (fst (iter_content r)))
         \<and> fs = (files w)(p \<mapsto> concat (fst (iter_content r)))"
proof -
  from assms have o: "open_wb w p = None"
    by (auto simp: save_stream_def split: option.splits)
  obtain e f t where wc: "write_chunks (write_error w) (fst (iter_content r)) [] 0 = (e, f, t)"
    by (cases "write_chunks (write_error w) (fst (iter_content r)) [] 0") auto
  with assms o have e: "e = None" and s: "snd (iter_content r) = None"
    and n: "n = t" and fs: "fs = (files w)(p \<mapsto> f)"
    by (auto simp: save_stream_def split: option.splits)
  from wc e write_chunks_done [of "write_error w" "fst (iter_content r)" "[]" 0 f t]
  have "f = concat (fst (iter_content r))" and "t = sum_list (map length (fst (iter_content r)))"
    by auto
  with o wc e s n fs show ?thesis by simp
qed

subsection \<open>The fetch attempt\<close>

lemma try_body_success:
  assumes "try_body lib w url d = (Inr (p, n), fs)"
  shows "\<exists>r name. http_get w url = Inr r \<and> raise_for_status r = None
           \<and> (\<exists>b. validate_image_response r = Inr b)
           \<and> generate_filename lib (clock w) url r = Inr name
           \<and> (\<exists>b. content_length_check lib r = Inr b)
           \<and> p = path_join lib d name
           \<and> save_stream w p r = (Inr n, fs)"
  using assms
  by (auto simp: try_body_def Let_def split: sum.splits option.splits prod.splits)

lemma except_clauses_no_success: "except_clauses e \<noteq> Returned (Success p n)"
  by (cases e) (auto simp: Let_def)

lemma fetch_image_success:
  assumes "fetch_image lib w url d = (Returned (Success p n), fs)"
  shows "mkdir w d = None \<and> try_body lib w url d = (Inr (p, n), fs)"
  using assms except_clauses_no_success
  by (auto simp: fetch_image_def split: option.splits sum.splits prod.splits)

text \<open>The example attempts, evaluated step by step.\<close>

lemma world_of_fields:
  "mkdir (world_of r fs0) d = None"
  "http_get (world_of r fs0) u = Inr r"
  "clock (world_of r fs0) = 7"
  "open_wb (world_of r fs0) p = None"
  "write_error (world_of r fs0) = (\<lambda>n. None)"
  "files (world_of r fs0) = fs0"
  by (simp_all add: world_of_def)

lemma png_response_steps:
  "validate_image_response (png_response c) = Inr True"
  "content_consumed (png_response c) = False"
  "generate_filename example_lib 7 example_url (png_response c) = Inr (ustr ''a.png'')"
  "path_join example_lib example_dir (ustr ''a.png'') = example_path"
  "content_length_check example_lib (png_response c) = Inr False"
  by code_simp+

lemma png_response_stream: "iter_content (png_response c) = ([png_chunk, [], ''data''], None)"
  by (simp add: iter_content_def png_response_steps) (simp add: png_response_def)

lemma png_response_saved:
  "save_stream (world_of r fs0) example_path (png_response c)
     = (Inr 12, fs0(example_path \<mapsto> png_chunk @ ''data''))"
  by (simp add: save_stream_def png_response_stream world_of_fields png_chunk_def)

lemma fetch_image_png:
  assumes "\<not> (400 \<le> c \<and> c < 600)"
  shows "fetch_image example_lib (world_of (png_response c) fs0) example_url example_dir
         = (Returned (Success example_path 12), fs0(example_path \<mapsto> png_chunk @ ''data''))"
proof -
  from assms have r: "raise_for_status (png_response c) = None"
    by (simp add: raise_for_status_def png_response_def)
  show ?thesis
    by (simp add: fetch_image_def try_body_def world_of_fields r png_response_steps
        png_response_saved)
qed

lemma fetch_image_not_found:
  "fetch_image example_lib (world_of not_found_response fs0) example_url example_dir
     = (Returned (Failure HTTPStatusError (ustr ''HTTP Unknown error'')), fs0)"
proof -
  have r: "raise_for_status not_found_response = Some (HTTPError (Some 404))"
    by (simp add: raise_for_status_def not_found_response_def)
  have m: "ustr ''HTTP '' @ ustr ''Unknown'' @ ustr '' error'' = ustr ''HTTP Unknown error''"
    by (simp add: ustr_def)
  show ?thesis
    by (simp add: fetch_image_def try_body_def world_of_fields r response_truthy_def m)
qed

text \<open>
  Claim C1 asks that a permission error while creating the directory is returned as a
  \<open>Failure\<close> of kind \<open>PermissionDenied\<close>.  In the source \<open>mkdir\<close> is called at line 95,
  outside the \<open>try\<close> statement that starts at line 98, so its \<open>PermissionError\<close> never
  reaches the clause of line 162: it leaves \<open>fetch_image\<close>.
\<close>

theorem fetch_image_mkdir_error_propagates:
  "fetch_image lib (w\<lparr>mkdir := (\<lambda>d. Some PermissionError)\<rparr>) url directory
     = (Propagated PermissionError, files w)"
  by (simp add: fetch_image_def)

text \<open>
  Claim C2, as amended: once the directory exists, for every response whose status code
  is from 400 to 599 (the codes for which \<open>raise_for_status\<close> raises) \<open>fetch_image\<close>
  returns a \<open>Failure\<close> of kind \<open>HTTPStatusError\<close> and the files on disk are unchanged.
\<close>

theorem fetch_image_http_error:
  assumes "mkdir w directory = None" and "http_get w url = Inr r"
    and "400 \<le> status_code r" and "status_code r < 600"
  shows "\<exists>m. fetch_image lib w url directory = (Returned (Failure HTTPStatusError m), files w)"
  using assms by (simp add: fetch_image_def try_body_def raise_for_status_def Let_def)

theorem fetch_image_http_error_witness:
  "\<exists>m. fetch_image example_lib (world_of not_found_response Map.empty) example_url example_dir
         = (Returned (Failure HTTPStatusError m), Map.empty)"
  using fetch_image_http_error
    [of "world_of not_found_response Map.empty" example_dir example_url not_found_response
      example_lib]
  by (simp add: world_of_fields) (simp add: not_found_response_def)

text \<open>
  Claim C2 as stated fails: a response with status 300 is outside the 2xx range, yet
  \<open>raise_for_status\<close> accepts it; with an image content type the attempt succeeds and
  the file is written.
\<close>

theorem fetch_image_non_2xx_counterexample:
  "status_code (png_response 300) = 300
   \<and> fetch_image example_lib (world_of (png_response 300) Map.empty) example_url example_dir
     = (Returned (Success example_path 12), [example_path \<mapsto> png_chunk @ ''data''])"
  using fetch_image_png [of 300 Map.empty] by (simp add: png_response_def)

text \<open>
  Claim C5, as amended: once the directory exists, for every response whose status code
  is not from 400 to 599, whose body is read without a transport error, whose
  \<open>Content-Type\<close> header does not start with \<open>image/\<close> (compared case-insensitively) and
  whose leading bytes match none of the five signatures, \<open>fetch_image\<close> returns a
  \<open>Failure\<close> of kind \<open>ContentValidationError\<close> and the files on disk are unchanged.
\<close>

theorem fetch_image_rejects:
  assumes "mkdir w directory = None" and "http_get w url = Inr r"
    and "\<not> (400 \<le> status_code r \<and> status_code r < 600)"
    and "body_error r = None"
    and "\<not> declares_image r" and "\<not> has_image_signature (concat (body r))"
  shows "fetch_image lib w url directory
           = (Returned (Failure ContentValidationError
                (ustr ''URL does not point to a valid image file'')), files w)"
  using assms
  by (simp add: fetch_image_def try_body_def raise_for_status_def validate_image_response_cases
      content_def not_image_message_def)

theorem fetch_image_rejects_witness:
  "fetch_image example_lib (world_of text_response Map.empty) example_url example_dir
     = (Returned (Failure ContentValidationError
          (ustr ''URL does not point to a valid image file'')), Map.empty)"
proof -
  have "\<not> (400 \<le> status_code text_response \<and> status_code text_response < 600)"
    and "body_error text_response = None"
    by (simp_all add: text_response_def)
  moreover have "\<not> declares_image text_response"
    and "\<not> has_image_signature (concat (body text_response))"
    by code_simp+
  ultimately show ?thesis
    using fetch_image_rejects
      [of "world_of text_response Map.empty" example_dir example_url text_response example_lib]
    by (simp add: world_of_fields)
qed

text \<open>
  Claim C5 as stated fails: a 404 response with content type \<open>text/html\<close> and the body
  \<open>hello\<close> neither declares an image nor carries a signature, and the attempt ends in
  the \<open>HTTPError\<close> clause, not in a content-validation failure.
\<close>

theorem fetch_image_rejects_counterexample:
  "\<not> declares_image not_found_response
   \<and> \<not> has_image_signature (concat (body not_found_response))
   \<and> fetch_image example_lib (world_of not_found_response Map.empty) example_url example_dir
     = (Returned (Failure HTTPStatusError (ustr ''HTTP Unknown error'')), Map.empty)"
proof (intro conjI)
  show "\<not> declares_image not_found_response" by code_simp
  show "\<not> has_image_signature (concat (body not_found_response))" by code_simp
  show "fetch_image example_lib (world_of not_found_response Map.empty) example_url example_dir
     = (Returned (Failure HTTPStatusError (ustr ''HTTP Unknown error'')), Map.empty)"
    by (rule fetch_image_not_found)
qed

text \<open>
  Claim C7: after a successful attempt the size \<open>n\<close> that is reported is the sum of the
  lengths of the chunks the stream yielded, which is the length of the file that was
  written (it is the running total of the loop, nothing is read back), and the loop
  treats the stream as if its empty chunks were absent.
\<close>

theorem fetch_image_size:
  assumes "fetch_image lib w url directory = (Returned (Success p n), fs)"
  shows "\<exists>r. http_get w url = Inr r
           \<and> n = sum_list (map length (fst (iter_content r)))
           \<and> fs p = Some (concat (fst (iter_content r)))
           \<and> n = length (concat (body r))
           \<and> write_chunks (write_error w) (filter (\<lambda>c. c \<noteq> []) (fst (iter_content r))) [] 0
               = (None, concat (fst (iter_content r)), n)"
proof -
  from fetch_image_success [OF assms] have "try_body lib w url directory = (Inr (p, n), fs)" ..
  from try_body_success [OF this] obtain r where g: "http_get w url = Inr r"
    and s: "save_stream w p r = (Inr n, fs)" by blast
  note k = save_stream_success [OF s]
  from k have "n = length (concat (body r))"
    by (simp add: length_concat_sum [symmetric] concat_iter_content)
  with g k show ?thesis by (auto simp: write_chunks_skip_empty)
qed

theorem fetch_image_size_witness:
  "fetch_image example_lib (world_of (png_response 200) Map.empty) example_url example_dir
     = (Returned (Success example_path 12), [example_path \<mapsto> png_chunk @ ''data''])
   \<and> 12 = sum_list (map length [png_chunk, [], ''data''])
   \<and> 12 = length (concat (body (png_response 200)))"
proof -
  have e: "fetch_image example_lib (world_of (png_response 200) Map.empty) example_url example_dir
     = (Returned (Success example_path 12), [example_path \<mapsto> png_chunk @ ''data''])"
    using fetch_image_png [of 200 Map.empty] by simp
  from fetch_image_size [OF e] obtain r
    where "http_get (world_of (png_response 200) Map.empty) example_url = Inr r"
      and "12 = sum_list (map length (fst (iter_content r)))"
      and "12 = length (concat (body r))"
    by blast
  then have "12 = sum_list (map length (fst (iter_content (png_response 200))))"
    and "12 = length (concat (body (png_response 200)))"
    by (simp_all add: world_of_fields)
  with e show ?thesis by (simp add: png_response_stream)
qed

text \<open>
  Claim C9 asks that the value or presence of the \<open>Content-Length\<close> header never changes
  the result.  The source converts the header with \<open>int\<close> inside the \<open>try\<close> statement
  and without a guard: for \<open>Content-Length: abc\<close> the conversion raises \<open>ValueError\<close>,
  the clause of line 157 returns a failure and no file is written, while the same
  response without the header is saved.
\<close>

theorem fetch_image_content_length_fatal:
  "fetch_image example_lib (world_of bad_length_response Map.empty) example_url example_dir
     = (Returned (Failure ContentValidationError
          (ustr ''invalid literal for int() with base 10: '' @ [39] @ ustr ''abc'' @ [39])),
        Map.empty)
   \<and> headers bad_length_response = (headers (png_response 200))(''content-length'' \<mapsto> ''abc'')
   \<and> fetch_image example_lib (world_of (png_response 200) Map.empty) example_url example_dir
     = (Returned (Success example_path 12), [example_path \<mapsto> png_chunk @ ''data''])"
proof (intro conjI)
  have s: "raise_for_status bad_length_response = None"
    "validate_image_response bad_length_response = Inr True"
    "generate_filename example_lib 7 example_url bad_length_response = Inr (ustr ''a.png'')"
    "content_length_check example_lib bad_length_response
       = Inl (ValueError
           (ustr ''invalid literal for int() with base 10: '' @ [39] @ ustr ''abc'' @ [39]))"
    by code_simp+
  show "fetch_image example_lib (world_of bad_length_response Map.empty) example_url example_dir
     = (Returned (Failure ContentValidationError
          (ustr ''invalid literal for int() with base 10: '' @ [39] @ ustr ''abc'' @ [39])),
        Map.empty)"
    by (simp add: fetch_image_def try_body_def world_of_fields s)
  show "headers bad_length_response
          = (headers (png_response 200))(''content-length'' \<mapsto> ''abc'')"
    by (simp add: bad_length_response_def png_response_def)
  show "fetch_image example_lib (world_of (png_response 200) Map.empty) example_url example_dir
     = (Returned (Success example_path 12), [example_path \<mapsto> png_chunk @ ''data''])"
    using fetch_image_png [of 200 Map.empty] by simp
qed

text \<open>
  Claim C10: a successful attempt leaves exactly the streamed bytes at the resolved
  path and every other file as it was, whatever the path held before; and the attempt
  runs the same way on any other disk content \<open>fs0\<close>, so a file that exists at the
  path is replaced without a check.
\<close>

theorem fetch_image_overwrites:
  assumes "fetch_image lib w url directory = (Returned (Success p n), fs)"
  shows "\<exists>r. http_get w url = Inr r
           \<and> fs = (files w)(p \<mapsto> concat (body r))
           \<and> fetch_image lib (w\<lparr>files := fs0\<rparr>) url directory
               = (Returned (Success p n), fs0(p \<mapsto> concat (body r)))"
proof -
  from fetch_image_success [OF assms] have m: "mkdir w directory = None"
    and t: "try_body lib w url directory = (Inr (p, n), fs)" by auto
  from try_body_success [OF t] obtain r name b c where g: "http_get w url = Inr r"
    and rs: "raise_for_status r = None" and v: "validate_image_response r = Inr b"
    and gf: "generate_filename lib (clock w) url r = Inr name"
    and cl: "content_length_check lib r = Inr c"
    and p: "p = path_join lib directory name"
    and s: "save_stream w p r = (Inr n, fs)" by blast
  note k = save_stream_success [OF s]
  from k have sv: "save_stream (w\<lparr>files := fs0\<rparr>) p r
      = (Inr n, fs0(p \<mapsto> concat (fst (iter_content r))))"
    by (simp add: save_stream_def)
  have "fetch_image lib (w\<lparr>files := fs0\<rparr>) url directory
      = (Returned (Success p n), fs0(p \<mapsto> concat (fst (iter_content r))))"
    using m g rs v gf cl p sv by (simp add: fetch_image_def try_body_def Let_def)
  with g k show ?thesis by (simp add: concat_iter_content)
qed

theorem fetch_image_overwrites_witness:
  "fetch_image example_lib (world_of (png_response 200) [example_path \<mapsto> ''old''])
       example_url example_dir
     = (Returned (Success example_path 12), [example_path \<mapsto> png_chunk @ ''data''])"
proof -
  have e: "fetch_image example_lib (world_of (png_response 200) Map.empty) example_url example_dir
     = (Returned (Success example_path 12), [example_path \<mapsto> png_chunk @ ''data''])"
    using fetch_image_png [of 200 Map.empty] by simp
  have w: "(world_of (png_response 200) Map.empty)\<lparr>files := [example_path \<mapsto> ''old'']\<rparr>
             = world_of (png_response 200) [example_path \<mapsto> ''old'']"
    by (simp add: world_of_def)
  have c: "concat (body (png_response 200)) = png_chunk @ ''data''"
    by (simp add: png_response_def)
  from fetch_image_overwrites [OF e, of "[example_path \<mapsto> ''old'']"] obtain r
    where g: "http_get (world_of (png_response 200) Map.empty) example_url = Inr r"
      and f: "fetch_image example_lib
             ((world_of (png_response 200) Map.empty)\<lparr>files := [example_path \<mapsto> ''old'']\<rparr>)
             example_url example_dir
           = (Returned (Success example_path 12),
              [example_path \<mapsto> ''old''](example_path \<mapsto> concat (body r)))"
    by blast
  from g have "r = png_response 200" by (simp add: world_of_fields)
  with f show ?thesis unfolding w by (simp add: c)
qed

end
